theory Spec2Isabelle
  imports Complex_Main "HOL-Library.AList"
begin

section \<open>Python values, errors and arithmetic\<close>

text \<open>
  The snapshot categorizers of \<^verbatim>\<open>looker_studio_exporter.py\<close> and
  \<^verbatim>\<open>looker_studio_optimized.py\<close> receive Python numbers. A finite number is a
  \<^typ>\<open>real\<close>; every threshold of the source (10, 50, -5, 0.5, 2e9, ...) is a number that
  a binary float holds exactly, so a comparison against it is exact. Rounding inside an
  arithmetic operation is not modelled: \<open>/\<close> and \<open>*\<close> are the operations of the reals.
  A raise of the source is the \<open>Inl\<close> branch of a sum.
\<close>

datatype py_error = ZeroDivisionError | TypeError | KeyError

text \<open>
  The market capitalisation read with \<^verbatim>\<open>info.get('marketCap', ...)\<close> is a number, the
  string sentinel \<^verbatim>\<open>'N/A'\<close> of the exporter, or \<^verbatim>\<open>None\<close>.
\<close>

datatype py_value = PNum real | PStr string | PNone




section \<open>Snapshot categorizer of \<^verbatim>\<open>looker_studio_exporter.py\<close>\<close>




text \<open>
  \<^verbatim>\<open>market_cap == 0 or market_cap == 'N/A'\<close> is an equality test between Python values
  and never raises; the order comparisons that follow raise \<^verbatim>\<open>TypeError\<close> on a string
  or on \<^verbatim>\<open>None\<close>.
\<close>

definition exporter_categorize_market_cap :: "py_value \<Rightarrow> py_error + string" where
  "exporter_categorize_market_cap market_cap =
     (if market_cap = PNum 0 \<or> market_cap = PStr ''N/A'' then Inr ''Unknown''
      else case market_cap of
             PNum m \<Rightarrow>
               Inr (if m < 2000000000 then ''Small Cap''
                    else if m < 10000000000 then ''Mid Cap''
                    else if m < 200000000000 then ''Large Cap''
                    else ''Mega Cap'')
           | PStr s \<Rightarrow> Inl TypeError
           | PNone \<Rightarrow> Inl TypeError)"


section \<open>Snapshot categorizer of \<^verbatim>\<open>looker_studio_optimized.py\<close>\<close>


definition optimized_categorize_market_cap :: "py_value \<Rightarrow> py_error + string" where
  "optimized_categorize_market_cap market_cap =
     (if market_cap = PNum 0 then Inr ''Unknown''
      else case market_cap of
             PNum m \<Rightarrow>
               Inr (if m < 300000000 then ''Micro Cap (<$300M)''
                    else if m < 2000000000 then ''Small Cap ($300M-$2B)''
                    else if m < 10000000000 then ''Mid Cap ($2B-$10B)''
                    else if m < 200000000000 then ''Large Cap ($10B-$200B)''
                    else ''Mega Cap (>$200B)'')
           | PStr s \<Rightarrow> Inl TypeError
           | PNone \<Rightarrow> Inl TypeError)"





section \<open>Floating-point values of a pandas column\<close>

text \<open>
  \<^verbatim>\<open>calculate_technical_indicators\<close> of \<^verbatim>\<open>advanced_streamlit_dashboard.py\<close> works on
  float64 columns, where a missing value is NaN and a division by zero gives an infinity
  or NaN instead of raising. A column entry is a finite number, an infinity or NaN, with
  the IEEE rules for the special values; the rounding of a finite result and overflow
  are not modelled, and zero has no sign.
\<close>

datatype fl = Fin real | PInf | NInf | NaN

fun is_nan :: "fl \<Rightarrow> bool" where
  "is_nan NaN = True"
| "is_nan _ = False"

fun fneg :: "fl \<Rightarrow> fl" where
  "fneg (Fin a) = Fin (- a)"
| "fneg PInf = NInf"
| "fneg NInf = PInf"
| "fneg NaN = NaN"

fun fadd :: "fl \<Rightarrow> fl \<Rightarrow> fl" where
  "fadd (Fin a) (Fin b) = Fin (a + b)"
| "fadd NaN _ = NaN"
| "fadd _ NaN = NaN"
| "fadd PInf NInf = NaN"
| "fadd NInf PInf = NaN"
| "fadd PInf _ = PInf"
| "fadd _ PInf = PInf"
| "fadd NInf _ = NInf"
| "fadd _ NInf = NInf"

definition fsub :: "fl \<Rightarrow> fl \<Rightarrow> fl" where
  "fsub a b = fadd a (fneg b)"

text \<open>The sign of a value, for the products and quotients with an infinity.\<close>

fun fsign :: "fl \<Rightarrow> int" where
  "fsign (Fin a) = (if 0 < a then 1 else if a < 0 then - 1 else 0)"
| "fsign PInf = 1"
| "fsign NInf = - 1"
| "fsign NaN = 0"

definition signed_inf :: "int \<Rightarrow> fl" where
  "signed_inf s = (if 0 < s then PInf else if s < 0 then NInf else NaN)"

fun fmul :: "fl \<Rightarrow> fl \<Rightarrow> fl" where
  "fmul (Fin a) (Fin b) = Fin (a * b)"
| "fmul NaN _ = NaN"
| "fmul _ NaN = NaN"
| "fmul a b = signed_inf (fsign a * fsign b)"

text \<open>
  A finite number over zero is an infinity with the sign of the numerator, and 0/0 is
  NaN; a finite number over an infinity is 0; an infinity over an infinity is NaN.
\<close>

fun fdiv :: "fl \<Rightarrow> fl \<Rightarrow> fl" where
  "fdiv (Fin a) (Fin b) = (if b \<noteq> 0 then Fin (a / b) else signed_inf (fsign (Fin a)))"
| "fdiv NaN _ = NaN"
| "fdiv _ NaN = NaN"
| "fdiv (Fin a) _ = Fin 0"
| "fdiv a (Fin b) = signed_inf (fsign a * (if b < 0 then - 1 else 1))"
| "fdiv _ _ = NaN"

fun fsqrt :: "fl \<Rightarrow> fl" where
  "fsqrt (Fin a) = (if a < 0 then NaN else Fin (sqrt a))"
| "fsqrt PInf = PInf"
| "fsqrt _ = NaN"

text \<open>Order comparisons: false as soon as one side is NaN.\<close>

fun flt :: "fl \<Rightarrow> fl \<Rightarrow> bool" where
  "flt (Fin a) (Fin b) = (a < b)"
| "flt NaN _ = False"
| "flt _ NaN = False"
| "flt NInf b = (b \<noteq> NInf)"
| "flt a PInf = (a \<noteq> PInf)"
| "flt _ _ = False"

definition fgt :: "fl \<Rightarrow> fl \<Rightarrow> bool" where
  "fgt a b = flt b a"

section \<open>The pandas operations the indicator engine calls\<close>

text \<open>
  A column (a pandas Series) is the list of its entries in index order. The operations
  below follow the documented behaviour of the library; each result has one entry per
  entry of its input, at the same position.
\<close>

type_synonym series = "fl list"

text \<open>\<^verbatim>\<open>s.diff()\<close>: the first entry is NaN, entry \<open>i\<close> is \<open>s[i] - s[i-1]\<close>.\<close>

definition diff :: "series \<Rightarrow> series" where
  "diff xs = map (\<lambda>i. if i = 0 then NaN else fsub (xs ! i) (xs ! (i - 1))) [0..<length xs]"

text \<open>
  \<^verbatim>\<open>s.where(cond, other)\<close> keeps an entry where the condition holds and puts
  \<open>other\<close> elsewhere. The conditions of the source are \<^verbatim>\<open>delta > 0\<close> and
  \<^verbatim>\<open>delta < 0\<close>, false on NaN, so the NaN that \<open>diff\<close> puts first becomes 0.
\<close>

definition series_where :: "(fl \<Rightarrow> bool) \<Rightarrow> fl \<Rightarrow> series \<Rightarrow> series" where
  "series_where cond other xs = map (\<lambda>x. if cond x then x else other) xs"

text \<open>
  The trailing window of \<open>w\<close> entries that ends at index \<open>i\<close> (for \<open>w \<le> i + 1\<close>),
  and the sum of a window.
\<close>

definition window :: "nat \<Rightarrow> series \<Rightarrow> nat \<Rightarrow> series" where
  "window w xs i = take w (drop (i + 1 - w) xs)"

definition fsum :: "series \<Rightarrow> fl" where
  "fsum xs = foldr fadd xs (Fin 0)"

text \<open>
  \<^verbatim>\<open>s.rolling(window=w)\<close> has \<open>min_periods = w\<close>: the aggregate at index \<open>i\<close> is NaN
  unless the window holds \<open>w\<close> entries, none of them NaN.
\<close>

definition window_ready :: "nat \<Rightarrow> series \<Rightarrow> nat \<Rightarrow> bool" where
  "window_ready w xs i = (w \<le> i + 1 \<and> \<not> list_ex is_nan (window w xs i))"

definition mean_of :: "series \<Rightarrow> fl" where
  "mean_of ys = fdiv (fsum ys) (Fin (real (length ys)))"

text \<open>\<^verbatim>\<open>.std()\<close> is the sample standard deviation (\<open>ddof = 1\<close>).\<close>

definition std_of :: "series \<Rightarrow> fl" where
  "std_of ys =
     (let m = mean_of ys
      in fsqrt (fdiv (fsum (map (\<lambda>y. fmul (fsub y m) (fsub y m)) ys))
                     (Fin (real (length ys) - 1))))"

definition rolling_mean :: "nat \<Rightarrow> series \<Rightarrow> series" where
  "rolling_mean w xs =
     map (\<lambda>i. if window_ready w xs i then mean_of (window w xs i) else NaN) [0..<length xs]"

definition rolling_std :: "nat \<Rightarrow> series \<Rightarrow> series" where
  "rolling_std w xs =
     map (\<lambda>i. if window_ready w xs i then std_of (window w xs i) else NaN) [0..<length xs]"

text \<open>
  \<^verbatim>\<open>s.ewm(span=n).mean()\<close> with the defaults of the library, \<open>adjust=True\<close>,
  \<open>ignore_na=False\<close> and \<open>min_periods=0\<close>. The smoothing factor is \<open>2 / (n + 1)\<close>.
  The library keeps the weighted mean so far and the total weight behind it; at each
  entry the old weight decays by \<open>1 - alpha\<close>, an observed entry comes in with
  weight 1, and a NaN entry leaves the mean as it is.
\<close>

definition ewm_alpha :: "nat \<Rightarrow> real" where
  "ewm_alpha n = 2 / (real n + 1)"

fun ewm_step :: "real \<Rightarrow> fl \<times> real \<Rightarrow> fl \<Rightarrow> fl \<times> real" where
  "ewm_step a (weighted, old_wt) cur =
     (if \<not> is_nan weighted
      then (let decayed = old_wt * (1 - a)
            in if \<not> is_nan cur
               then (fdiv (fadd (fmul (Fin decayed) weighted) cur) (Fin (decayed + 1)),
                     decayed + 1)
               else (weighted, decayed))
      else if \<not> is_nan cur then (cur, old_wt)
      else (weighted, old_wt))"

fun ewm_scan :: "real \<Rightarrow> fl \<times> real \<Rightarrow> series \<Rightarrow> series" where
  "ewm_scan a st [] = []"
| "ewm_scan a st (cur # rest) = fst (ewm_step a st cur) # ewm_scan a (ewm_step a st cur) rest"

definition ewm_mean :: "nat \<Rightarrow> series \<Rightarrow> series" where
  "ewm_mean n xs =
     (case xs of [] \<Rightarrow> [] | x # rest \<Rightarrow> x # ewm_scan (ewm_alpha n) (x, 1) rest)"

text \<open>Arithmetic between columns, and between a column and a number, is entry by entry.\<close>

definition series_add :: "series \<Rightarrow> series \<Rightarrow> series" where
  "series_add xs ys = map2 fadd xs ys"

definition series_sub :: "series \<Rightarrow> series \<Rightarrow> series" where
  "series_sub xs ys = map2 fsub xs ys"

definition series_div :: "series \<Rightarrow> series \<Rightarrow> series" where
  "series_div xs ys = map2 fdiv xs ys"

section \<open>The indicator columns of \<^verbatim>\<open>calculate_technical_indicators\<close>\<close>

text \<open>Each column as a function of the \<^verbatim>\<open>Close\<close> column, in the order of the source.\<close>

definition MA_5 :: "series \<Rightarrow> series" where
  "MA_5 closes = rolling_mean 5 closes"

definition MA_20 :: "series \<Rightarrow> series" where
  "MA_20 closes = rolling_mean 20 closes"

definition MA_50 :: "series \<Rightarrow> series" where
  "MA_50 closes = rolling_mean 50 closes"

definition delta :: "series \<Rightarrow> series" where
  "delta closes = diff closes"

definition gain :: "series \<Rightarrow> series" where
  "gain closes = rolling_mean 14 (series_where (\<lambda>d. fgt d (Fin 0)) (Fin 0) (delta closes))"

definition loss :: "series \<Rightarrow> series" where
  "loss closes =
     rolling_mean 14 (map fneg (series_where (\<lambda>d. flt d (Fin 0)) (Fin 0) (delta closes)))"

definition rs :: "series \<Rightarrow> series" where
  "rs closes = series_div (gain closes) (loss closes)"

definition RSI :: "series \<Rightarrow> series" where
  "RSI closes =
     map (\<lambda>r. fsub (Fin 100) (fdiv (Fin 100) (fadd (Fin 1) r))) (rs closes)"

definition BB_Middle :: "series \<Rightarrow> series" where
  "BB_Middle closes = rolling_mean 20 closes"

definition bb_std :: "series \<Rightarrow> series" where
  "bb_std closes = rolling_std 20 closes"

definition BB_Upper :: "series \<Rightarrow> series" where
  "BB_Upper closes =
     series_add (BB_Middle closes) (map (\<lambda>s. fmul s (Fin 2)) (bb_std closes))"

definition BB_Lower :: "series \<Rightarrow> series" where
  "BB_Lower closes =
     series_sub (BB_Middle closes) (map (\<lambda>s. fmul s (Fin 2)) (bb_std closes))"

definition exp1 :: "series \<Rightarrow> series" where
  "exp1 closes = ewm_mean 12 closes"

definition exp2 :: "series \<Rightarrow> series" where
  "exp2 closes = ewm_mean 26 closes"

definition MACD :: "series \<Rightarrow> series" where
  "MACD closes = series_sub (exp1 closes) (exp2 closes)"

definition MACD_Signal :: "series \<Rightarrow> series" where
  "MACD_Signal closes = ewm_mean 9 (MACD closes)"

definition MACD_Histogram :: "series \<Rightarrow> series" where
  "MACD_Histogram closes = series_sub (MACD closes) (MACD_Signal closes)"

section \<open>Data frames, the store, and \<^verbatim>\<open>calculate_technical_indicators\<close>\<close>

text \<open>
  A data frame is an object that the caller and the function both hold by reference:
  an index (the timestamps of the bars) and named columns, kept in column order. The
  store is the list of the live objects and a reference is a position in it. Reading a
  column that is absent raises \<^verbatim>\<open>KeyError\<close>; assigning a column replaces it in place
  or appends it after the last column.
\<close>

record dataframe =
  df_index :: "nat list"
  df_columns :: "(string \<times> series) list"

type_synonym store = "dataframe list"

type_synonym ref = nat

definition getitem :: "dataframe \<Rightarrow> string \<Rightarrow> py_error + series" where
  "getitem df name =
     (case map_of (df_columns df) name of None \<Rightarrow> Inl KeyError | Some col \<Rightarrow> Inr col)"

definition setitem :: "dataframe \<Rightarrow> string \<Rightarrow> series \<Rightarrow> dataframe" where
  "setitem df name col = df\<lparr>df_columns := AList.update name col (df_columns df)\<rparr>"

definition store_get :: "store \<Rightarrow> ref \<Rightarrow> string \<Rightarrow> py_error + series" where
  "store_get s r name = getitem (s ! r) name"

definition store_set :: "store \<Rightarrow> ref \<Rightarrow> string \<Rightarrow> series \<Rightarrow> store" where
  "store_set s r name col = s[r := setitem (s ! r) name col]"

text \<open>\<^verbatim>\<open>data.copy()\<close> allocates a new object with the contents of the old one.\<close>

definition df_copy :: "store \<Rightarrow> ref \<Rightarrow> store \<times> ref" where
  "df_copy s r = (s @ [s ! r], length s)"

definition bind_err :: "py_error + 'a \<Rightarrow> ('a \<Rightarrow> py_error + 'b) \<Rightarrow> py_error + 'b" where
  "bind_err m f = (case m of Inl e \<Rightarrow> Inl e | Inr x \<Rightarrow> f x)"

text \<open>
  The function, statement by statement: every \<^verbatim>\<open>df['...']\<close> on a right-hand side is a
  read of the store and every \<^verbatim>\<open>df['...'] = ...\<close> a write to it. The result is the
  store after the call and the reference that is returned.
\<close>

definition calculate_technical_indicators :: "store \<Rightarrow> ref \<Rightarrow> py_error + store \<times> ref" where
  "calculate_technical_indicators s0 data =
     (let (s1, df) = df_copy s0 data
      in bind_err (store_get s1 df ''Close'') (\<lambda>c.
         let s2 = store_set s1 df ''MA_5'' (rolling_mean 5 c)
         in bind_err (store_get s2 df ''Close'') (\<lambda>c.
         let s3 = store_set s2 df ''MA_20'' (rolling_mean 20 c)
         in bind_err (store_get s3 df ''Close'') (\<lambda>c.
         let s4 = store_set s3 df ''MA_50'' (rolling_mean 50 c)
         in bind_err (store_get s4 df ''Close'') (\<lambda>c.
         let s5 = store_set s4 df ''RSI'' (RSI c)
         in bind_err (store_get s5 df ''Close'') (\<lambda>c.
         let s6 = store_set s5 df ''BB_Middle'' (rolling_mean 20 c)
         in bind_err (store_get s6 df ''Close'') (\<lambda>c.
         let std = rolling_std 20 c
         in bind_err (store_get s6 df ''BB_Middle'') (\<lambda>m.
         let s7 = store_set s6 df ''BB_Upper'' (series_add m (map (\<lambda>s. fmul s (Fin 2)) std))
         in bind_err (store_get s7 df ''BB_Middle'') (\<lambda>m.
         let s8 = store_set s7 df ''BB_Lower'' (series_sub m (map (\<lambda>s. fmul s (Fin 2)) std))
         in bind_err (store_get s8 df ''Close'') (\<lambda>c.
         let e1 = ewm_mean 12 c
         in bind_err (store_get s8 df ''Close'') (\<lambda>c.
         let e2 = ewm_mean 26 c;
             s9 = store_set s8 df ''MACD'' (series_sub e1 e2)
         in bind_err (store_get s9 df ''MACD'') (\<lambda>macd.
         let s10 = store_set s9 df ''MACD_Signal'' (ewm_mean 9 macd)
         in bind_err (store_get s10 df ''MACD'') (\<lambda>macd.
            bind_err (store_get s10 df ''MACD_Signal'') (\<lambda>signal.
         let s11 = store_set s10 df ''MACD_Histogram'' (series_sub macd signal)
         in Inr (s11, df)))))))))))))))"

text \<open>
  Every column of a data frame has one entry per entry of the index.
\<close>

definition wf_dataframe :: "dataframe \<Rightarrow> bool" where
  "wf_dataframe df = list_all (\<lambda>(name, col). length col = length (df_index df)) (df_columns df)"

section \<open>Auxiliary notions for the statements\<close>

text \<open>
  A gain or loss entry is never negative and never NaN: it is a finite number that is
  at least 0, or plus infinity.
\<close>

fun nonneg :: "fl \<Rightarrow> bool" where
  "nonneg (Fin a) = (0 \<le> a)"
| "nonneg PInf = True"
| "nonneg _ = False"

text \<open>
  The upward and the downward move into bar \<open>j\<close> of a series of finite closes; bar 0
  has no predecessor and counts as no move.
\<close>

definition upward :: "real list \<Rightarrow> nat \<Rightarrow> real" where
  "upward cs j = (if j = 0 then 0 else max 0 (cs ! j - cs ! (j - 1)))"

definition downward :: "real list \<Rightarrow> nat \<Rightarrow> real" where
  "downward cs j = (if j = 0 then 0 else max 0 (cs ! (j - 1) - cs ! j))"

text \<open>
  The adjusted exponentially weighted mean in closed form: entry \<open>i - j\<close> carries the
  weight \<open>(1 - alpha) ^ j\<close>, and the mean at index \<open>i\<close> is the weighted sum of the entries
  so far over the total weight. The factor that the newest entry receives at index \<open>i\<close>
  is \<open>alpha / (1 - (1 - alpha) ^ (i + 1))\<close>, which tends to \<open>alpha\<close> as \<open>i\<close> grows.
\<close>

definition total_weight :: "real \<Rightarrow> nat \<Rightarrow> real" where
  "total_weight a i = (\<Sum>j\<le>i. (1 - a) ^ j)"

definition weighted_sum :: "real \<Rightarrow> real list \<Rightarrow> nat \<Rightarrow> real" where
  "weighted_sum a vs i = (\<Sum>j\<le>i. (1 - a) ^ j * vs ! (i - j))"

definition adjusted_alpha :: "nat \<Rightarrow> nat \<Rightarrow> real" where
  "adjusted_alpha n i = ewm_alpha n / (1 - (1 - ewm_alpha n) ^ (i + 1))"

text \<open>
  The data frame that the function is expected to return for an input frame whose
  \<^verbatim>\<open>Close\<close> column is \<open>c\<close>: the ten indicator columns assigned in the order of the
  source.
\<close>

definition enriched :: "series \<Rightarrow> dataframe \<Rightarrow> dataframe" where
  "enriched c df =
     setitem (setitem (setitem (setitem (setitem (setitem (setitem (setitem (setitem (setitem df
       ''MA_5'' (MA_5 c)) ''MA_20'' (MA_20 c)) ''MA_50'' (MA_50 c)) ''RSI'' (RSI c))
       ''BB_Middle'' (BB_Middle c)) ''BB_Upper'' (BB_Upper c)) ''BB_Lower'' (BB_Lower c))
       ''MACD'' (MACD c)) ''MACD_Signal'' (MACD_Signal c))
       ''MACD_Histogram'' (MACD_Histogram c)"

section \<open>Properties of the snapshot categorizers\<close>






text \<open>
  Claim C10. A strictly negative market capitalisation falls into the smallest bucket,
  "Small Cap" in the exporter and "Micro Cap (<$300M)" in the optimized exporter, not into
  "Unknown"; the exporter answers "Unknown" only for the number 0 and the string 'N/A',
  the optimized exporter only for the number 0.
\<close>

theorem market_cap_negative:
  "(m < 0 \<longrightarrow> exporter_categorize_market_cap (PNum m) = Inr ''Small Cap''
       \<and> optimized_categorize_market_cap (PNum m) = Inr ''Micro Cap (<$300M)'')
   \<and> (exporter_categorize_market_cap v = Inr ''Unknown'') = (v = PNum 0 \<or> v = PStr ''N/A'')
   \<and> (optimized_categorize_market_cap v = Inr ''Unknown'') = (v = PNum 0)"
  by (cases v) (simp_all add: exporter_categorize_market_cap_def optimized_categorize_market_cap_def)

theorem market_cap_negative_witness:
  "(- 1 :: real) < 0
   \<and> exporter_categorize_market_cap (PNum (- 1)) = Inr ''Small Cap''
   \<and> optimized_categorize_market_cap (PNum (- 1)) = Inr ''Micro Cap (<$300M)''"
  using market_cap_negative [of "- 1" "PNum 0"] by simp

section \<open>Properties of the pandas operations\<close>

lemma length_diff [simp]: "length (diff xs) = length xs"
  by (simp add: diff_def)

lemma length_series_where [simp]: "length (series_where c other xs) = length xs"
  by (simp add: series_where_def)

lemma length_rolling_mean [simp]: "length (rolling_mean w xs) = length xs"
  by (simp add: rolling_mean_def)

lemma length_rolling_std [simp]: "length (rolling_std w xs) = length xs"
  by (simp add: rolling_std_def)

lemma length_ewm_scan [simp]: "length (ewm_scan a st xs) = length xs"
  by (induction xs arbitrary: st) simp_all

lemma length_ewm_mean [simp]: "length (ewm_mean n xs) = length xs"
  by (simp add: ewm_mean_def split: list.splits)

lemma nth_rolling_mean:
  "i < length xs \<Longrightarrow>
   rolling_mean w xs ! i = (if window_ready w xs i then mean_of (window w xs i) else NaN)"
  by (simp add: rolling_mean_def)

lemma nth_rolling_std:
  "i < length xs \<Longrightarrow>
   rolling_std w xs ! i = (if window_ready w xs i then std_of (window w xs i) else NaN)"
  by (simp add: rolling_std_def)

lemma rolling_mean_warmup: "i < length xs \<Longrightarrow> i + 1 < w \<Longrightarrow> rolling_mean w xs ! i = NaN"
  by (simp add: nth_rolling_mean window_ready_def)

lemma rolling_std_warmup: "i < length xs \<Longrightarrow> i + 1 < w \<Longrightarrow> rolling_std w xs ! i = NaN"
  by (simp add: nth_rolling_std window_ready_def)

lemma length_gain [simp]: "length (gain closes) = length closes"
  by (simp add: gain_def delta_def)

lemma length_loss [simp]: "length (loss closes) = length closes"
  by (simp add: loss_def delta_def)

lemma length_rs [simp]: "length (rs closes) = length closes"
  by (simp add: rs_def series_div_def)

lemma length_RSI [simp]: "length (RSI closes) = length closes"
  by (simp add: RSI_def)

lemma nth_rs: "i < length closes \<Longrightarrow> rs closes ! i = fdiv (gain closes ! i) (loss closes ! i)"
  by (simp add: rs_def series_div_def)

lemma nth_RSI:
  "i < length closes \<Longrightarrow>
   RSI closes ! i
     = fsub (Fin 100) (fdiv (Fin 100) (fadd (Fin 1) (fdiv (gain closes ! i) (loss closes ! i))))"
  by (simp add: RSI_def nth_rs)

lemma RSI_warmup: "i < length closes \<Longrightarrow> i < 13 \<Longrightarrow> RSI closes ! i = NaN"
  by (simp add: nth_RSI gain_def delta_def rolling_mean_warmup fsub_def)

lemma length_BB [simp]:
  "length (BB_Middle closes) = length closes"
  "length (bb_std closes) = length closes"
  "length (BB_Upper closes) = length closes"
  "length (BB_Lower closes) = length closes"
  by (simp_all add: BB_Middle_def bb_std_def BB_Upper_def BB_Lower_def series_add_def series_sub_def)

lemma nth_BB_Upper:
  "i < length closes \<Longrightarrow>
   BB_Upper closes ! i = fadd (BB_Middle closes ! i) (fmul (bb_std closes ! i) (Fin 2))"
  by (simp add: BB_Upper_def series_add_def)

lemma nth_BB_Lower:
  "i < length closes \<Longrightarrow>
   BB_Lower closes ! i = fsub (BB_Middle closes ! i) (fmul (bb_std closes ! i) (Fin 2))"
  by (simp add: BB_Lower_def series_sub_def)


lemma fsum_Nil [simp]: "fsum [] = Fin 0"
  by (simp add: fsum_def)

lemma fsum_Cons [simp]: "fsum (x # xs) = fadd x (fsum xs)"
  by (simp add: fsum_def)

lemma fsum_map_Fin: "fsum (map Fin vs) = Fin (sum_list vs)"
  by (induction vs) simp_all

lemma no_nan_map_Fin: "\<not> list_ex is_nan (map Fin vs)"
  by (induction vs) simp_all

lemma window_conv_nth:
  assumes "i < length xs" and "w \<le> i + 1"
  shows "window w xs i = map (\<lambda>j. xs ! j) [i + 1 - w..<i + 1]"
proof (rule nth_equalityI)
  show "length (window w xs i) = length (map (\<lambda>j. xs ! j) [i + 1 - w..<i + 1])"
    using assms by (simp add: window_def del: upt_Suc)
next
  fix j assume "j < length (window w xs i)"
  then have "j < w" by (simp add: window_def)
  then show "window w xs i ! j = map (\<lambda>j. xs ! j) [i + 1 - w..<i + 1] ! j"
    using assms by (simp add: window_def del: upt_Suc)
qed


lemma window_map_Fin:
  assumes "i < length cs" and "w \<le> i + 1"
  shows "window w (map Fin cs) i = map Fin (map (\<lambda>j. cs ! j) [i + 1 - w..<i + 1])"
  using assms by (simp add: window_conv_nth del: upt_Suc)

lemma sum_list_interval: "sum_list (map f [a..<b + 1]) = (\<Sum>j = a..b. f j)"
proof -
  have "sum_list (map f [a..<b + 1]) = sum f (set [a..<b + 1])"
    by (rule interv_sum_list_conv_sum_set_nat)
  also have "set [a..<b + 1] = {a..b}" by auto
  finally show ?thesis .
qed

lemma mean_of_map_Fin: "vs \<noteq> [] \<Longrightarrow> mean_of (map Fin vs) = Fin (sum_list vs / real (length vs))"
  by (simp add: mean_of_def fsum_map_Fin)

lemma rolling_mean_finite:
  assumes "i < length cs" and "0 < w" and "w \<le> i + 1"
  shows "rolling_mean w (map Fin cs) ! i = Fin ((\<Sum>j = i + 1 - w..i. cs ! j) / real w)"
proof -
  define ys where "ys = map (\<lambda>j. cs ! j) [i + 1 - w..<i + 1]"
  have win: "window w (map Fin cs) i = map Fin ys"
    unfolding ys_def using assms by (rule_tac window_map_Fin)
  have ready: "window_ready w (map Fin cs) i"
    using assms by (simp add: window_ready_def win no_nan_map_Fin)
  have len: "length ys = w"
    using assms by (simp add: ys_def del: upt_Suc)
  then have ne: "ys \<noteq> []"
    using assms by auto
  have "sum_list ys = (\<Sum>j = i + 1 - w..i. cs ! j)"
    unfolding ys_def by (rule sum_list_interval)
  then have "mean_of (map Fin ys) = Fin ((\<Sum>j = i + 1 - w..i. cs ! j) / real w)"
    using mean_of_map_Fin [OF ne] len by simp
  then show ?thesis
    using assms ready by (simp add: nth_rolling_mean win)
qed


section \<open>Properties of the indicator columns\<close>

text \<open>
  Claim C6. An index with fewer trailing bars than the window is NaN, never 0 or another
  number: the first 4, 19 and 49 entries of the moving averages, the first 13 entries
  of the RSI and the first 19 entries of the three Bollinger columns. A series shorter
  than the window has only such indices, so every entry of the indicator is NaN.
\<close>

theorem insufficient_history_is_NaN:
  "i < length closes \<Longrightarrow>
   (i < 4 \<longrightarrow> MA_5 closes ! i = NaN)
   \<and> (i < 19 \<longrightarrow> MA_20 closes ! i = NaN)
   \<and> (i < 49 \<longrightarrow> MA_50 closes ! i = NaN)
   \<and> (i < 13 \<longrightarrow> RSI closes ! i = NaN)
   \<and> (i < 19 \<longrightarrow> BB_Middle closes ! i = NaN \<and> BB_Upper closes ! i = NaN
                  \<and> BB_Lower closes ! i = NaN)
   \<and> (length closes < 5 \<longrightarrow> MA_5 closes ! i = NaN)
   \<and> (length closes < 20 \<longrightarrow> MA_20 closes ! i = NaN \<and> BB_Middle closes ! i = NaN
                  \<and> BB_Upper closes ! i = NaN \<and> BB_Lower closes ! i = NaN)
   \<and> (length closes < 50 \<longrightarrow> MA_50 closes ! i = NaN)
   \<and> (length closes < 14 \<longrightarrow> RSI closes ! i = NaN)"
  by (simp add: MA_5_def MA_20_def MA_50_def RSI_warmup BB_Middle_def bb_std_def
      nth_BB_Upper nth_BB_Lower rolling_mean_warmup rolling_std_warmup fsub_def)

theorem insufficient_history_is_NaN_witness:
  "(2::nat) < length [Fin 10, Fin 11, Fin 12]
   \<and> MA_5 [Fin 10, Fin 11, Fin 12] ! 2 = NaN
   \<and> MA_20 [Fin 10, Fin 11, Fin 12] ! 2 = NaN
   \<and> MA_50 [Fin 10, Fin 11, Fin 12] ! 2 = NaN
   \<and> RSI [Fin 10, Fin 11, Fin 12] ! 2 = NaN
   \<and> BB_Middle [Fin 10, Fin 11, Fin 12] ! 2 = NaN
   \<and> BB_Upper [Fin 10, Fin 11, Fin 12] ! 2 = NaN
   \<and> BB_Lower [Fin 10, Fin 11, Fin 12] ! 2 = NaN"
  using insufficient_history_is_NaN [of 2 "[Fin 10, Fin 11, Fin 12]"] by simp

text \<open>
  Claim C8. On finite closes, the moving average with window 5, 20 or 50 at an index
  \<open>i \<ge> w - 1\<close> is the arithmetic mean of the closes \<open>i - w + 1 .. i\<close>; where the
  closes up to \<open>i\<close> all equal \<open>v\<close>, the moving average is \<open>v\<close>.
\<close>

theorem moving_average_is_trailing_mean:
  "i < length cs \<Longrightarrow>
   (4 \<le> i \<longrightarrow> MA_5 (map Fin cs) ! i = Fin ((\<Sum>j = i - 4..i. cs ! j) / 5))
   \<and> (19 \<le> i \<longrightarrow> MA_20 (map Fin cs) ! i = Fin ((\<Sum>j = i - 19..i. cs ! j) / 20))
   \<and> (49 \<le> i \<longrightarrow> MA_50 (map Fin cs) ! i = Fin ((\<Sum>j = i - 49..i. cs ! j) / 50))
   \<and> ((\<forall>j \<le> i. cs ! j = v) \<longrightarrow>
        (4 \<le> i \<longrightarrow> MA_5 (map Fin cs) ! i = Fin v)
        \<and> (19 \<le> i \<longrightarrow> MA_20 (map Fin cs) ! i = Fin v)
        \<and> (49 \<le> i \<longrightarrow> MA_50 (map Fin cs) ! i = Fin v))"
  by (simp add: MA_5_def MA_20_def MA_50_def rolling_mean_finite)

theorem moving_average_is_trailing_mean_witness:
  "(49::nat) < length (replicate 50 (7::real))
   \<and> MA_5 (map Fin (replicate 50 7)) ! 49 = Fin 7
   \<and> MA_20 (map Fin (replicate 50 7)) ! 49 = Fin 7
   \<and> MA_50 (map Fin (replicate 50 7)) ! 49 = Fin 7"
  using moving_average_is_trailing_mean [of 49 "replicate 50 7" 7] by simp


section \<open>Bollinger bands\<close>

lemma fadd_NaN_right [simp]: "fadd x NaN = NaN"
  by (cases x) simp_all












section \<open>Relative strength index\<close>

lemma gain_source_nonneg: "\<forall>y \<in> set (series_where (\<lambda>d. fgt d (Fin 0)) (Fin 0) xs). nonneg y"
proof -
  have "nonneg d" if "fgt d (Fin 0)" for d
    using that by (cases d) (simp_all add: fgt_def)
  then show ?thesis by (auto simp: series_where_def)
qed

lemma loss_source_nonneg:
  "\<forall>y \<in> set (map fneg (series_where (\<lambda>d. flt d (Fin 0)) (Fin 0) xs)). nonneg y"
proof -
  have "nonneg (fneg (if flt d (Fin 0) then d else Fin 0))" for d
    by (cases d) simp_all
  then show ?thesis by (auto simp: series_where_def)
qed

lemma nonneg_fadd: "nonneg x \<Longrightarrow> nonneg y \<Longrightarrow> nonneg (fadd x y)"
  by (cases x; cases y) simp_all

lemma nonneg_fsum: "\<forall>y \<in> set ys. nonneg y \<Longrightarrow> nonneg (fsum ys)"
  by (induction ys) (simp_all add: nonneg_fadd)

lemma nonneg_mean_of: "\<forall>y \<in> set ys. nonneg y \<Longrightarrow> ys \<noteq> [] \<Longrightarrow> nonneg (mean_of ys)"
proof -
  assume a: "\<forall>y \<in> set ys. nonneg y" and ne: "ys \<noteq> []"
  have "nonneg (fdiv s (Fin (real (length ys))))" if "nonneg s" for s
    using that ne by (cases s) (simp_all add: signed_inf_def)
  then show ?thesis using nonneg_fsum [OF a] by (simp add: mean_of_def)
qed

lemma set_window_subset: "set (window w xs i) \<subseteq> set xs"
  unfolding window_def by (meson set_take_subset set_drop_subset subset_trans)

lemma rolling_mean_nonneg:
  assumes "\<forall>y \<in> set xs. nonneg y" and "i < length xs"
  shows "rolling_mean w xs ! i = NaN \<or> nonneg (rolling_mean w xs ! i)"
proof (cases "window_ready w xs i \<and> window w xs i \<noteq> []")
  case True
  have "\<forall>y \<in> set (window w xs i). nonneg y"
    using assms(1) set_window_subset by blast
  then have "nonneg (mean_of (window w xs i))"
    using True by (intro nonneg_mean_of) simp_all
  then show ?thesis using True assms(2) by (simp add: nth_rolling_mean)
next
  case False
  then show ?thesis using assms(2) by (auto simp: nth_rolling_mean mean_of_def signed_inf_def)
qed

lemma rsi_value_bounded:
  assumes "g = NaN \<or> nonneg g" and "l = NaN \<or> nonneg l"
  shows "fsub (Fin 100) (fdiv (Fin 100) (fadd (Fin 1) (fdiv g l))) = NaN
         \<or> (\<exists>r. fsub (Fin 100) (fdiv (Fin 100) (fadd (Fin 1) (fdiv g l))) = Fin r
                \<and> 0 \<le> r \<and> r \<le> 100)"
proof (cases g)
  case (Fin a)
  note g = this
  show ?thesis
  proof (cases l)
    case (Fin b)
    with g assms have ab: "0 \<le> a" "0 \<le> b" by simp_all
    show ?thesis
    proof (cases "b = 0")
      case True
      then show ?thesis using g Fin ab by (simp add: fsub_def signed_inf_def)
    next
      case False
      with ab have q: "0 \<le> a / b" by simp
      then have "100 / (1 + a / b) \<le> 100 / 1"
        by (intro divide_left_mono) simp_all
      moreover have "0 \<le> 100 / (1 + a / b)" using q by simp
      moreover have "1 + a / b \<noteq> 0" using q by linarith
      ultimately show ?thesis using g Fin False by (simp add: fsub_def)
    qed
  qed (use g assms in \<open>simp_all add: fsub_def\<close>)
next
  case PInf
  then show ?thesis using assms by (cases l) (simp_all add: fsub_def signed_inf_def)
qed (use assms in \<open>simp_all add: fsub_def\<close>)

lemma RSI_in_range:
  assumes "i < length closes"
  shows "RSI closes ! i = NaN \<or> (\<exists>r. RSI closes ! i = Fin r \<and> 0 \<le> r \<and> r \<le> 100)"
proof -
  have n: "i < length (delta closes)" using assms by (simp add: delta_def)
  have g: "gain closes ! i = NaN \<or> nonneg (gain closes ! i)"
    unfolding gain_def using n by (intro rolling_mean_nonneg gain_source_nonneg) simp
  have l: "loss closes ! i = NaN \<or> nonneg (loss closes ! i)"
    unfolding loss_def using n by (intro rolling_mean_nonneg loss_source_nonneg) simp
  show ?thesis
    unfolding nth_RSI [OF assms] using g l by (rule rsi_value_bounded)
qed

lemma RSI_no_loss:
  "i < length closes \<Longrightarrow> loss closes ! i = Fin 0 \<Longrightarrow> gain closes ! i = Fin g \<Longrightarrow> 0 < g
   \<Longrightarrow> RSI closes ! i = Fin 100"
  by (simp add: nth_RSI fsub_def signed_inf_def)

lemma RSI_no_gain:
  "i < length closes \<Longrightarrow> gain closes ! i = Fin 0 \<Longrightarrow> loss closes ! i = Fin l \<Longrightarrow> 0 < l
   \<Longrightarrow> RSI closes ! i = Fin 0"
  by (simp add: nth_RSI fsub_def signed_inf_def)

text \<open>
  A window without any move has average gain and average loss 0; the quotient is 0/0
  and the RSI is NaN there, that is, undefined.
\<close>

lemma RSI_flat:
  "i < length closes \<Longrightarrow> gain closes ! i = Fin 0 \<Longrightarrow> loss closes ! i = Fin 0
   \<Longrightarrow> RSI closes ! i = NaN"
  by (simp add: nth_RSI fsub_def signed_inf_def)

lemma gain_source_finite:
  "series_where (\<lambda>d. fgt d (Fin 0)) (Fin 0) (delta (map Fin cs))
   = map Fin (map (upward cs) [0..<length cs])"
  by (rule nth_equalityI)
     (auto simp: series_where_def delta_def diff_def upward_def fsub_def fgt_def max_def)

lemma loss_source_finite:
  "map fneg (series_where (\<lambda>d. flt d (Fin 0)) (Fin 0) (delta (map Fin cs)))
   = map Fin (map (downward cs) [0..<length cs])"
  by (rule nth_equalityI)
     (auto simp: series_where_def delta_def diff_def downward_def fsub_def max_def)

lemma sum_map_upt:
  assumes "i < n"
  shows "(\<Sum>j = a..i. map f [0..<n] ! j) = (\<Sum>j = a..i. f j)"
  using assms by (intro sum.cong) auto

lemma gain_finite:
  assumes "i < length cs" and "13 \<le> i"
  shows "gain (map Fin cs) ! i = Fin ((\<Sum>j = i - 13..i. upward cs j) / 14)"
proof -
  have "rolling_mean 14 (map Fin (map (upward cs) [0..<length cs])) ! i
        = Fin ((\<Sum>j = i + 1 - 14..i. map (upward cs) [0..<length cs] ! j) / real (14::nat))"
    using assms by (intro rolling_mean_finite) simp_all
  then show ?thesis
    using assms by (simp add: gain_def gain_source_finite sum_map_upt)
qed

lemma loss_finite:
  assumes "i < length cs" and "13 \<le> i"
  shows "loss (map Fin cs) ! i = Fin ((\<Sum>j = i - 13..i. downward cs j) / 14)"
proof -
  have "rolling_mean 14 (map Fin (map (downward cs) [0..<length cs])) ! i
        = Fin ((\<Sum>j = i + 1 - 14..i. map (downward cs) [0..<length cs] ! j) / real (14::nat))"
    using assms by (intro rolling_mean_finite) simp_all
  then show ?thesis
    using assms by (simp add: loss_def loss_source_finite sum_map_upt)
qed

lemma slice_steps:
  assumes "i < length cs" and "sorted_wrt R (drop (i - 14) (take (i + 1) cs))"
    and "1 \<le> j" and "i - 13 \<le> j" and "j \<le> i"
  shows "R (cs ! (j - 1)) (cs ! j)"
proof -
  let ?zs = "drop (i - 14) (take (i + 1) cs)"
  have a: "i - 14 \<le> j - 1" using assms(3,4) by arith
  have len: "length ?zs = i + 1 - (i - 14)" using assms(1) by simp
  have k: "j - 1 - (i - 14) < j - (i - 14)" "j - (i - 14) < length ?zs"
    using assms a len by arith+
  have "R (?zs ! (j - 1 - (i - 14))) (?zs ! (j - (i - 14)))"
    using assms(2) k by (simp only: sorted_wrt_iff_nth_less)
  moreover have "?zs ! (j - 1 - (i - 14)) = cs ! (j - 1)"
    using assms a by simp
  moreover have "?zs ! (j - (i - 14)) = cs ! j"
    using assms a by simp
  ultimately show ?thesis by simp
qed

lemma all_gains_no_loss:
  assumes "i < length cs" and "13 \<le> i"
    and "sorted_wrt (\<lambda>a b. a < b) (drop (i - 14) (take (i + 1) cs))"
  shows "loss (map Fin cs) ! i = Fin 0"
proof -
  have step: "cs ! (j - 1) < cs ! j" if "1 \<le> j" "i - 13 \<le> j" "j \<le> i" for j
    using assms(1,3) that by (rule slice_steps)
  have down: "downward cs j = 0" if "j \<in> {i - 13..i}" for j
    using step [of j] that by (auto simp: downward_def max_def)
  show ?thesis
    using loss_finite [OF assms(1,2)] down by simp
qed

lemma all_losses_no_gain:
  assumes "i < length cs" and "13 \<le> i"
    and "sorted_wrt (\<lambda>a b. b < a) (drop (i - 14) (take (i + 1) cs))"
  shows "gain (map Fin cs) ! i = Fin 0"
proof -
  have step: "cs ! j < cs ! (j - 1)" if "1 \<le> j" "i - 13 \<le> j" "j \<le> i" for j
    using slice_steps [OF assms(1,3) that] .
  have up: "upward cs j = 0" if "j \<in> {i - 13..i}" for j
    using step [of j] that by (auto simp: upward_def max_def)
  show ?thesis
    using gain_finite [OF assms(1,2)] up by simp
qed

lemma all_gains:
  assumes "i < length cs" and "13 \<le> i"
    and "sorted_wrt (\<lambda>a b. a < b) (drop (i - 14) (take (i + 1) cs))"
  shows "RSI (map Fin cs) ! i = Fin 100"
proof -
  have step: "cs ! (j - 1) < cs ! j" if "1 \<le> j" "i - 13 \<le> j" "j \<le> i" for j
    using assms(1,3) that by (rule slice_steps)
  have up0: "0 \<le> upward cs j" for j
    by (simp add: upward_def)
  have "0 < upward cs i"
    using step [of i] assms(2) by (simp add: upward_def)
  then have "0 < (\<Sum>j = i - 13..i. upward cs j)"
    using up0 by (intro sum_pos2 [where i = i]) simp_all
  then have g: "0 < (\<Sum>j = i - 13..i. upward cs j) / 14" by simp
  have l: "loss (map Fin cs) ! i = Fin 0"
    using assms by (rule all_gains_no_loss)
  have len: "i < length (map Fin cs)" using assms(1) by simp
  show ?thesis
    using RSI_no_loss [OF len l gain_finite [OF assms(1,2)] g] .
qed

lemma all_losses:
  assumes "i < length cs" and "13 \<le> i"
    and "sorted_wrt (\<lambda>a b. b < a) (drop (i - 14) (take (i + 1) cs))"
  shows "RSI (map Fin cs) ! i = Fin 0"
proof -
  have step: "cs ! j < cs ! (j - 1)" if "1 \<le> j" "i - 13 \<le> j" "j \<le> i" for j
    using slice_steps [OF assms(1,3) that] .
  have down0: "0 \<le> downward cs j" for j
    by (simp add: downward_def)
  have "0 < downward cs i"
    using step [of i] assms(2) by (simp add: downward_def)
  then have "0 < (\<Sum>j = i - 13..i. downward cs j)"
    using down0 by (intro sum_pos2 [where i = i]) simp_all
  then have l: "0 < (\<Sum>j = i - 13..i. downward cs j) / 14" by simp
  have g: "gain (map Fin cs) ! i = Fin 0"
    using assms by (rule all_losses_no_gain)
  have len: "i < length (map Fin cs)" using assms(1) by simp
  show ?thesis
    using RSI_no_gain [OF len g loss_finite [OF assms(1,2)] l] .
qed



text \<open>
  Claim C1. At every index the 14-window RSI is NaN (undefined) or a number between 0
  and 100. Where the average loss is 0 and the average gain is positive the division
  gives an infinity and the RSI is exactly 100, without raising; in particular on a
  window of strictly rising finite closes the average loss is 0 and the RSI is 100, and
  on a window of strictly falling finite closes the average gain is 0 and the RSI is 0.
\<close>

theorem RSI_bounded_and_saturates:
  "(i < length closes \<longrightarrow>
      RSI closes ! i = NaN \<or> (\<exists>r. RSI closes ! i = Fin r \<and> 0 \<le> r \<and> r \<le> 100))
   \<and> (i < length closes \<and> loss closes ! i = Fin 0 \<and> gain closes ! i = Fin g \<and> 0 < g \<longrightarrow>
      RSI closes ! i = Fin 100)
   \<and> (k < length cs \<and> 13 \<le> k
        \<and> sorted_wrt (\<lambda>a b. a < b) (drop (k - 14) (take (k + 1) cs)) \<longrightarrow>
      loss (map Fin cs) ! k = Fin 0 \<and> RSI (map Fin cs) ! k = Fin 100)
   \<and> (k < length cs \<and> 13 \<le> k
        \<and> sorted_wrt (\<lambda>a b. b < a) (drop (k - 14) (take (k + 1) cs)) \<longrightarrow>
      gain (map Fin cs) ! k = Fin 0 \<and> RSI (map Fin cs) ! k = Fin 0)"
proof (intro conjI impI)
  assume "i < length closes"
  then show "RSI closes ! i = NaN \<or> (\<exists>r. RSI closes ! i = Fin r \<and> 0 \<le> r \<and> r \<le> 100)"
    by (rule RSI_in_range)
next
  assume "i < length closes \<and> loss closes ! i = Fin 0 \<and> gain closes ! i = Fin g \<and> 0 < g"
  then show "RSI closes ! i = Fin 100"
    using RSI_no_loss [of i closes g] by simp
next
  assume a: "k < length cs \<and> 13 \<le> k
    \<and> sorted_wrt (\<lambda>a b. a < b) (drop (k - 14) (take (k + 1) cs))"
  then show "loss (map Fin cs) ! k = Fin 0"
    using all_gains_no_loss [of k cs] by simp
  from a show "RSI (map Fin cs) ! k = Fin 100"
    using all_gains [of k cs] by simp
next
  assume a: "k < length cs \<and> 13 \<le> k
    \<and> sorted_wrt (\<lambda>a b. b < a) (drop (k - 14) (take (k + 1) cs))"
  then show "gain (map Fin cs) ! k = Fin 0"
    using all_losses_no_gain [of k cs] by simp
  from a show "RSI (map Fin cs) ! k = Fin 0"
    using all_losses [of k cs] by simp
qed

theorem RSI_bounded_and_saturates_witness:
  "RSI (map Fin [1, 2, 3, 4, 5, 6, 7, 8, 9, 10, 11, 12, 13, 14, 15]) ! 14 = Fin 100
   \<and> RSI (map Fin [15, 14, 13, 12, 11, 10, 9, 8, 7, 6, 5, 4, 3, 2, 1]) ! 14 = Fin 0"
proof -
  have up: "RSI (map Fin [1, 2, 3, 4, 5, 6, 7, 8, 9, 10, 11, 12, 13, 14, 15]) ! 14 = Fin 100"
    using RSI_bounded_and_saturates
      [of 0 "[]" 0 14 "[1, 2, 3, 4, 5, 6, 7, 8, 9, 10, 11, 12, 13, 14, 15]"]
    by simp
  have down: "RSI (map Fin [15, 14, 13, 12, 11, 10, 9, 8, 7, 6, 5, 4, 3, 2, 1]) ! 14 = Fin 0"
    using RSI_bounded_and_saturates
      [of 0 "[]" 0 14 "[15, 14, 13, 12, 11, 10, 9, 8, 7, 6, 5, 4, 3, 2, 1]"]
    by simp
  show ?thesis using up down by simp
qed


section \<open>Exponentially weighted means and MACD\<close>

lemma total_weight_0 [simp]: "total_weight a 0 = 1"
  by (simp add: total_weight_def)

lemma total_weight_Suc: "total_weight a (Suc i) = 1 + (1 - a) * total_weight a i"
proof -
  have "(\<Sum>j\<le>Suc i. (1 - a) ^ j) = (1 - a) ^ 0 + (\<Sum>j\<le>i. (1 - a) ^ Suc j)"
    by (rule sum.atMost_Suc_shift)
  also have "\<dots> = 1 + (1 - a) * (\<Sum>j\<le>i. (1 - a) ^ j)"
    by (simp add: sum_distrib_left)
  finally show ?thesis by (simp only: total_weight_def)
qed

lemma total_weight_pos: "a \<le> 1 \<Longrightarrow> 0 < total_weight a i"
proof (induction i)
  case 0
  then show ?case by simp
next
  case (Suc i)
  then have "0 \<le> (1 - a) * total_weight a i" by simp
  then show ?case by (simp add: total_weight_Suc)
qed

lemma weighted_sum_0 [simp]: "weighted_sum a vs 0 = vs ! 0"
  by (simp add: weighted_sum_def)

lemma weighted_sum_Suc:
  "weighted_sum a vs (Suc i) = vs ! Suc i + (1 - a) * weighted_sum a vs i"
proof -
  have "(\<Sum>j\<le>Suc i. (1 - a) ^ j * vs ! (Suc i - j))
        = (1 - a) ^ 0 * vs ! (Suc i - 0) + (\<Sum>j\<le>i. (1 - a) ^ Suc j * vs ! (Suc i - Suc j))"
    by (rule sum.atMost_Suc_shift)
  also have "\<dots> = vs ! Suc i + (1 - a) * (\<Sum>j\<le>i. (1 - a) ^ j * vs ! (i - j))"
    by (simp add: sum_distrib_left mult.assoc)
  finally show ?thesis by (simp only: weighted_sum_def)
qed

lemma total_weight_closed:
  assumes "a \<noteq> 0"
  shows "total_weight a i = (1 - (1 - a) ^ (i + 1)) / a"
proof -
  have "1 - a \<noteq> 1" using assms by simp
  then have "(\<Sum>j<Suc i. (1 - a) ^ j) = ((1 - a) ^ Suc i - 1) / ((1 - a) - 1)"
    by (rule geometric_sum)
  also have "\<dots> = (1 - (1 - a) ^ (i + 1)) / a"
    using assms by (simp add: field_simps)
  finally show ?thesis by (simp add: total_weight_def lessThan_Suc_atMost)
qed

lemma ewm_alpha_range: "1 \<le> n \<Longrightarrow> 0 < ewm_alpha n \<and> ewm_alpha n \<le> 1"
  by (simp add: ewm_alpha_def)

lemma adjusted_alpha_weight:
  "1 \<le> n \<Longrightarrow> adjusted_alpha n i = 1 / total_weight (ewm_alpha n) i"
  using ewm_alpha_range [of n] by (simp add: adjusted_alpha_def total_weight_closed)

lemma ewm_scan_nth:
  "k < length xs \<Longrightarrow> ewm_scan a st xs ! k = fst (foldl (ewm_step a) st (take (Suc k) xs))"
proof (induction xs arbitrary: st k)
  case Nil
  then show ?case by simp
next
  case (Cons x xs)
  then show ?case by (cases k) simp_all
qed

lemma ewm_step_Fin:
  "w * (1 - a) + 1 \<noteq> 0 \<Longrightarrow>
   ewm_step a (Fin x, w) (Fin c)
     = (Fin ((w * (1 - a) * x + c) / (w * (1 - a) + 1)), w * (1 - a) + 1)"
  by (simp add: Let_def)

lemma ewm_state:
  assumes "a \<le> 1" and "i \<le> length rest"
  shows "foldl (ewm_step a) (Fin c0, 1) (map Fin (take i rest))
         = (Fin (weighted_sum a (c0 # rest) i / total_weight a i), total_weight a i)"
  using assms(2)
proof (induction i)
  case 0
  then show ?case by simp
next
  case (Suc i)
  then have i: "i < length rest" by simp
  let ?W = "total_weight a i"
  let ?N = "weighted_sum a (c0 # rest) i"
  have pos: "0 < ?W" using assms(1) by (rule total_weight_pos)
  have pos': "0 < total_weight a (Suc i)" using assms(1) by (rule total_weight_pos)
  have W': "?W * (1 - a) + 1 = total_weight a (Suc i)"
    by (simp add: total_weight_Suc mult.commute)
  have N': "?W * (1 - a) * (?N / ?W) + rest ! i = weighted_sum a (c0 # rest) (Suc i)"
    using pos by (simp add: weighted_sum_Suc)
  have "foldl (ewm_step a) (Fin c0, 1) (map Fin (take (Suc i) rest))
        = ewm_step a (Fin (?N / ?W), ?W) (Fin (rest ! i))"
    using Suc i by (simp add: take_Suc_conv_app_nth)
  also have "\<dots> = (Fin ((?W * (1 - a) * (?N / ?W) + rest ! i) / (?W * (1 - a) + 1)),
                    ?W * (1 - a) + 1)"
    using pos' W' by (intro ewm_step_Fin) simp
  also have "\<dots> = (Fin (weighted_sum a (c0 # rest) (Suc i) / total_weight a (Suc i)),
                    total_weight a (Suc i))"
    by (simp only: W' N')
  finally show ?case .
qed

lemma ewm_mean_closed:
  assumes "1 \<le> n" and "i < length vs"
  shows "ewm_mean n (map Fin vs) ! i
         = Fin (weighted_sum (ewm_alpha n) vs i / total_weight (ewm_alpha n) i)"
proof (cases vs)
  case Nil
  with assms show ?thesis by simp
next
  case (Cons c0 rest)
  have a: "ewm_alpha n \<le> 1" using assms(1) ewm_alpha_range by blast
  show ?thesis
  proof (cases i)
    case 0
    then show ?thesis by (simp add: Cons ewm_mean_def)
  next
    case (Suc k)
    with assms Cons have k: "k < length rest" by simp
    have "ewm_mean n (map Fin vs) ! i
          = fst (foldl (ewm_step (ewm_alpha n)) (Fin c0, 1) (map Fin (take (Suc k) rest)))"
      using k by (simp add: Cons Suc ewm_mean_def ewm_scan_nth take_map)
    also have "\<dots> = Fin (weighted_sum (ewm_alpha n) (c0 # rest) (Suc k)
                            / total_weight (ewm_alpha n) (Suc k))"
      using ewm_state [OF a, of "Suc k" rest c0] k by simp
    finally show ?thesis by (simp add: Cons Suc)
  qed
qed

lemma ewm_mean_first: "xs \<noteq> [] \<Longrightarrow> ewm_mean n xs ! 0 = xs ! 0"
  by (cases xs) (simp_all add: ewm_mean_def)

lemma ewm_mean_recurrence:
  assumes "1 \<le> n" and "i < length vs" and "1 \<le> i"
  shows "ewm_mean n (map Fin vs) ! i
         = fadd (fmul (Fin (adjusted_alpha n i)) (map Fin vs ! i))
                (fmul (Fin (1 - adjusted_alpha n i)) (ewm_mean n (map Fin vs) ! (i - 1)))"
proof -
  obtain k where k: "i = Suc k" using assms(3) by (cases i) auto
  let ?a = "ewm_alpha n"
  have a: "?a \<le> 1" using assms(1) ewm_alpha_range by blast
  have Wk: "0 < total_weight ?a k" and Wi: "0 < total_weight ?a (Suc k)"
    using a by (rule total_weight_pos)+
  have prev: "ewm_mean n (map Fin vs) ! k = Fin (weighted_sum ?a vs k / total_weight ?a k)"
    using assms k by (intro ewm_mean_closed) simp_all
  have cur: "ewm_mean n (map Fin vs) ! Suc k
             = Fin (weighted_sum ?a vs (Suc k) / total_weight ?a (Suc k))"
    using assms k by (intro ewm_mean_closed) simp_all
  have "weighted_sum ?a vs (Suc k) / total_weight ?a (Suc k)
        = 1 / total_weight ?a (Suc k) * vs ! Suc k
          + (1 - 1 / total_weight ?a (Suc k)) * (weighted_sum ?a vs k / total_weight ?a k)"
  proof -
    have "(1 - 1 / total_weight ?a (Suc k)) * (weighted_sum ?a vs k / total_weight ?a k)
          = ((1 - ?a) * total_weight ?a k / total_weight ?a (Suc k))
            * (weighted_sum ?a vs k / total_weight ?a k)"
      using Wi by (simp add: total_weight_Suc [of ?a k] field_simps)
    also have "\<dots> = (1 - ?a) * weighted_sum ?a vs k / total_weight ?a (Suc k)"
      using Wk by simp
    finally show ?thesis
      by (simp add: weighted_sum_Suc add_divide_distrib)
  qed
  then show ?thesis
    using assms k prev cur by (simp add: adjusted_alpha_weight)
qed

lemma ewm_mean_finite_list:
  assumes "1 \<le> n"
  shows "ewm_mean n (map Fin vs)
         = map Fin (map (\<lambda>i. weighted_sum (ewm_alpha n) vs i / total_weight (ewm_alpha n) i)
                        [0..<length vs])"
  by (rule nth_equalityI) (simp_all add: ewm_mean_closed [OF assms])

lemma series_sub_finite:
  "series_sub (map Fin xs) (map Fin ys) = map Fin (map2 (\<lambda>x y. x - y) xs ys)"
  by (rule nth_equalityI) (simp_all add: series_sub_def fsub_def)

lemma MACD_finite: "\<exists>ms. MACD (map Fin cs) = map Fin ms \<and> length ms = length cs"
proof -
  let ?e = "\<lambda>n. map (\<lambda>i. weighted_sum (ewm_alpha n) cs i / total_weight (ewm_alpha n) i)
                     [0..<length cs]"
  have e1: "ewm_mean 12 (map Fin cs) = map Fin (?e 12)"
    by (rule ewm_mean_finite_list) simp
  have e2: "ewm_mean 26 (map Fin cs) = map Fin (?e 26)"
    by (rule ewm_mean_finite_list) simp
  have "MACD (map Fin cs) = series_sub (map Fin (?e 12)) (map Fin (?e 26))"
    by (simp only: MACD_def exp1_def exp2_def e1 e2)
  then have "MACD (map Fin cs) = map Fin (map2 (\<lambda>x y. x - y) (?e 12) (?e 26))"
    by (simp only: series_sub_finite)
  moreover have "length (map2 (\<lambda>x y. x - y) (?e 12) (?e 26)) = length cs" by simp
  ultimately show ?thesis by blast
qed

text \<open>
  Claim C5, as stated, gives the recurrence \<open>EMA[i] = alpha * x[i] + (1 - alpha) * EMA[i-1]\<close>
  with the constant \<open>alpha = 2 / (span + 1)\<close>. The source calls \<^verbatim>\<open>ewm(span=12).mean()\<close>
  with the default \<open>adjust=True\<close>. On the closes 10, 11 the fast average starts at 10
  and its second entry is \<open>(11 + 11/13 * 10) / (1 + 11/13) = 253/24\<close>, where the
  recurrence gives \<open>2/13 * 11 + 11/13 * 10 = 132/13\<close>.
\<close>

theorem macd_ema_counterexample:
  "exp1 [Fin 10, Fin 11] ! 0 = Fin 10
   \<and> exp1 [Fin 10, Fin 11] ! 1 = Fin (253 / 24)
   \<and> fadd (fmul (Fin (2 / (12 + 1))) ([Fin 10, Fin 11] ! 1))
          (fmul (Fin (1 - 2 / (12 + 1))) (exp1 [Fin 10, Fin 11] ! 0)) = Fin (132 / 13)
   \<and> exp1 [Fin 10, Fin 11] ! 1
       \<noteq> fadd (fmul (Fin (2 / (12 + 1))) ([Fin 10, Fin 11] ! 1))
              (fmul (Fin (1 - 2 / (12 + 1))) (exp1 [Fin 10, Fin 11] ! 0))"
  by (simp add: exp1_def ewm_mean_def ewm_alpha_def Let_def)

text \<open>
  Claim C5, amended. On finite closes the three exponential averages of MACD (spans 12,
  26 and 9, the last one over the MACD column) start at the first entry of their input
  and satisfy, at every index \<open>i \<ge> 1\<close>,
  \<open>EMA[i] = a_i * x[i] + (1 - a_i) * EMA[i-1]\<close> with the index-dependent factor
  \<open>a_i = alpha / (1 - (1 - alpha) ^ (i + 1))\<close>, \<open>alpha = 2 / (span + 1)\<close>; equivalently each
  entry is the mean of the inputs so far with the weights \<open>(1 - alpha) ^ j\<close>.
\<close>

theorem macd_ema_adjusted_recurrence:
  assumes "i < length cs"
  shows "exp1 (map Fin cs) ! 0 = Fin (cs ! 0)
   \<and> exp2 (map Fin cs) ! 0 = Fin (cs ! 0)
   \<and> MACD_Signal (map Fin cs) ! 0 = MACD (map Fin cs) ! 0
   \<and> (1 \<le> i \<longrightarrow>
        exp1 (map Fin cs) ! i
          = fadd (fmul (Fin (adjusted_alpha 12 i)) (Fin (cs ! i)))
                 (fmul (Fin (1 - adjusted_alpha 12 i)) (exp1 (map Fin cs) ! (i - 1)))
        \<and> exp2 (map Fin cs) ! i
          = fadd (fmul (Fin (adjusted_alpha 26 i)) (Fin (cs ! i)))
                 (fmul (Fin (1 - adjusted_alpha 26 i)) (exp2 (map Fin cs) ! (i - 1)))
        \<and> MACD_Signal (map Fin cs) ! i
          = fadd (fmul (Fin (adjusted_alpha 9 i)) (MACD (map Fin cs) ! i))
                 (fmul (Fin (1 - adjusted_alpha 9 i)) (MACD_Signal (map Fin cs) ! (i - 1))))
   \<and> exp1 (map Fin cs) ! i
        = Fin (weighted_sum (ewm_alpha 12) cs i / total_weight (ewm_alpha 12) i)
   \<and> exp2 (map Fin cs) ! i
        = Fin (weighted_sum (ewm_alpha 26) cs i / total_weight (ewm_alpha 26) i)"
proof -
  have ne: "map Fin cs \<noteq> []" using assms by auto
  obtain ms where ms: "MACD (map Fin cs) = map Fin ms" "length ms = length cs"
    using MACD_finite by blast
  have pos: "0 < length cs" using assms by auto
  have first: "exp1 (map Fin cs) ! 0 = Fin (cs ! 0)" "exp2 (map Fin cs) ! 0 = Fin (cs ! 0)"
    using pos ewm_mean_first [OF ne] by (simp_all add: exp1_def exp2_def)
  have "MACD (map Fin cs) \<noteq> []" using ms assms by auto
  then have sig0: "MACD_Signal (map Fin cs) ! 0 = MACD (map Fin cs) ! 0"
    unfolding MACD_Signal_def by (rule ewm_mean_first)
  have r1: "exp1 (map Fin cs) ! i
          = fadd (fmul (Fin (adjusted_alpha 12 i)) (Fin (cs ! i)))
                 (fmul (Fin (1 - adjusted_alpha 12 i)) (exp1 (map Fin cs) ! (i - 1)))"
    if "1 \<le> i"
    using ewm_mean_recurrence [of 12 i cs] assms that by (simp add: exp1_def)
  have r2: "exp2 (map Fin cs) ! i
          = fadd (fmul (Fin (adjusted_alpha 26 i)) (Fin (cs ! i)))
                 (fmul (Fin (1 - adjusted_alpha 26 i)) (exp2 (map Fin cs) ! (i - 1)))"
    if "1 \<le> i"
    using ewm_mean_recurrence [of 26 i cs] assms that by (simp add: exp2_def)
  have r3: "MACD_Signal (map Fin cs) ! i
          = fadd (fmul (Fin (adjusted_alpha 9 i)) (MACD (map Fin cs) ! i))
                 (fmul (Fin (1 - adjusted_alpha 9 i)) (MACD_Signal (map Fin cs) ! (i - 1)))"
    if "1 \<le> i"
    using ewm_mean_recurrence [of 9 i ms] assms that ms by (simp add: MACD_Signal_def)
  have c1: "exp1 (map Fin cs) ! i
        = Fin (weighted_sum (ewm_alpha 12) cs i / total_weight (ewm_alpha 12) i)"
    unfolding exp1_def using assms by (intro ewm_mean_closed) simp_all
  have c2: "exp2 (map Fin cs) ! i
        = Fin (weighted_sum (ewm_alpha 26) cs i / total_weight (ewm_alpha 26) i)"
    unfolding exp2_def using assms by (intro ewm_mean_closed) simp_all
  show ?thesis
    using first sig0 r1 r2 r3 c1 c2 by blast
qed

theorem macd_ema_adjusted_recurrence_witness:
  "(1::nat) < length [10, 11 :: real]
   \<and> exp1 (map Fin [10, 11]) ! 1
       = fadd (fmul (Fin (adjusted_alpha 12 1)) (Fin 11))
              (fmul (Fin (1 - adjusted_alpha 12 1)) (exp1 (map Fin [10, 11]) ! 0))
   \<and> adjusted_alpha 12 1 = 13 / 24"
proof -
  have len: "(1::nat) < length [10, 11 :: real]" by simp
  have "adjusted_alpha 12 1 = 13 / 24"
    by (simp add: adjusted_alpha_def ewm_alpha_def power2_eq_square)
  then show ?thesis
    using len macd_ema_adjusted_recurrence [OF len] by simp
qed


section \<open>The call as a whole: frame, alignment and purity\<close>

lemma getitem_setitem:
  "getitem (setitem df name col) k = (if k = name then Inr col else getitem df k)"
  by (simp add: getitem_def setitem_def update_conv')

lemma df_index_setitem [simp]: "df_index (setitem df name col) = df_index df"
  by (simp add: setitem_def)

lemma store_get_last: "store_get (s @ [x]) (length s) k = getitem x k"
  by (simp add: store_get_def)

lemma store_set_last: "store_set (s @ [x]) (length s) name col = s @ [setitem x name col]"
  by (simp add: store_set_def)

lemma length_series_ops [simp]:
  "length (series_add xs ys) = min (length xs) (length ys)"
  "length (series_sub xs ys) = min (length xs) (length ys)"
  "length (series_div xs ys) = min (length xs) (length ys)"
  by (simp_all add: series_add_def series_sub_def series_div_def)

lemma length_columns [simp]:
  "length (MA_5 c) = length c"
  "length (MA_20 c) = length c"
  "length (MA_50 c) = length c"
  "length (MACD c) = length c"
  "length (MACD_Signal c) = length c"
  "length (MACD_Histogram c) = length c"
  by (simp_all add: MA_5_def MA_20_def MA_50_def MACD_def MACD_Signal_def MACD_Histogram_def
      exp1_def exp2_def)

lemma calculate_technical_indicators_result:
  assumes "data < length s0" and "getitem (s0 ! data) ''Close'' = Inr c"
  shows "calculate_technical_indicators s0 data = Inr (s0 @ [enriched c (s0 ! data)], length s0)"
  using assms
  unfolding calculate_technical_indicators_def df_copy_def enriched_def
  by (simp add: Let_def bind_err_def store_get_last store_set_last getitem_setitem
      MA_5_def MA_20_def MA_50_def BB_Middle_def bb_std_def BB_Upper_def BB_Lower_def
      MACD_def MACD_Signal_def MACD_Histogram_def exp1_def exp2_def)

lemma calculate_technical_indicators_KeyError:
  assumes "data < length s0" and "getitem (s0 ! data) ''Close'' = Inl e"
  shows "calculate_technical_indicators s0 data = Inl e"
  using assms
  unfolding calculate_technical_indicators_def df_copy_def
  by (simp add: Let_def bind_err_def store_get_last)

lemma list_all_update:
  "list_all P al \<Longrightarrow> P (k, v) \<Longrightarrow> list_all P (AList.update k v al)"
  by (induction al) auto

lemma wf_setitem:
  "wf_dataframe df \<Longrightarrow> length col = length (df_index df) \<Longrightarrow> wf_dataframe (setitem df name col)"
  by (simp add: wf_dataframe_def setitem_def list_all_update)

lemma wf_getitem:
  assumes "wf_dataframe df" and "getitem df name = Inr col"
  shows "length col = length (df_index df)"
proof -
  have "map_of (df_columns df) name = Some col"
    using assms(2) by (simp add: getitem_def split: option.splits)
  then have "(name, col) \<in> set (df_columns df)"
    by (rule map_of_SomeD)
  then show ?thesis
    using assms(1) by (auto simp: wf_dataframe_def list_all_iff)
qed

lemma wf_enriched:
  assumes "wf_dataframe df" and "length c = length (df_index df)"
  shows "wf_dataframe (enriched c df)"
  unfolding enriched_def using assms by (intro wf_setitem) simp_all

lemma df_index_enriched [simp]: "df_index (enriched c df) = df_index df"
  by (simp add: enriched_def)

lemma getitem_enriched:
  "getitem (enriched c df) ''MA_5'' = Inr (MA_5 c)"
  "getitem (enriched c df) ''MA_20'' = Inr (MA_20 c)"
  "getitem (enriched c df) ''MA_50'' = Inr (MA_50 c)"
  "getitem (enriched c df) ''RSI'' = Inr (RSI c)"
  "getitem (enriched c df) ''BB_Middle'' = Inr (BB_Middle c)"
  "getitem (enriched c df) ''BB_Upper'' = Inr (BB_Upper c)"
  "getitem (enriched c df) ''BB_Lower'' = Inr (BB_Lower c)"
  "getitem (enriched c df) ''MACD'' = Inr (MACD c)"
  "getitem (enriched c df) ''MACD_Signal'' = Inr (MACD_Signal c)"
  "getitem (enriched c df) ''MACD_Histogram'' = Inr (MACD_Histogram c)"
  "getitem (enriched c df) ''Close'' = getitem df ''Close''"
  by (simp_all add: enriched_def getitem_setitem)

text \<open>
  Claim C9. A call on a well-formed data frame with a \<^verbatim>\<open>Close\<close> column returns a fresh
  frame and leaves every object the caller held, the input frame among them, as it
  was. The new frame has the index of the input, every column of it has one entry per
  index entry, and each derived column is the indicator of the \<^verbatim>\<open>Close\<close> column. The
  result depends on nothing but the contents of the input frame: a call in any other
  store on a frame with the same contents returns the same frame.
\<close>

theorem indicators_pure_and_aligned:
  assumes "data < length s0" and "wf_dataframe (s0 ! data)"
    and "getitem (s0 ! data) ''Close'' = Inr closes"
  shows "\<exists>s' df. calculate_technical_indicators s0 data = Inr (s', df)
     \<and> df = length s0 \<and> length s' = Suc (length s0)
     \<and> take (length s0) s' = s0 \<and> s' ! data = s0 ! data
     \<and> df_index (s' ! df) = df_index (s0 ! data)
     \<and> wf_dataframe (s' ! df)
     \<and> getitem (s' ! df) ''Close'' = Inr closes
     \<and> getitem (s' ! df) ''MA_5'' = Inr (MA_5 closes)
     \<and> getitem (s' ! df) ''MA_20'' = Inr (MA_20 closes)
     \<and> getitem (s' ! df) ''MA_50'' = Inr (MA_50 closes)
     \<and> getitem (s' ! df) ''RSI'' = Inr (RSI closes)
     \<and> getitem (s' ! df) ''BB_Middle'' = Inr (BB_Middle closes)
     \<and> getitem (s' ! df) ''BB_Upper'' = Inr (BB_Upper closes)
     \<and> getitem (s' ! df) ''BB_Lower'' = Inr (BB_Lower closes)
     \<and> getitem (s' ! df) ''MACD'' = Inr (MACD closes)
     \<and> getitem (s' ! df) ''MACD_Signal'' = Inr (MACD_Signal closes)
     \<and> getitem (s' ! df) ''MACD_Histogram'' = Inr (MACD_Histogram closes)
     \<and> length (MA_5 closes) = length (df_index (s0 ! data))
     \<and> length (MA_20 closes) = length (df_index (s0 ! data))
     \<and> length (MA_50 closes) = length (df_index (s0 ! data))
     \<and> length (RSI closes) = length (df_index (s0 ! data))
     \<and> length (BB_Middle closes) = length (df_index (s0 ! data))
     \<and> length (BB_Upper closes) = length (df_index (s0 ! data))
     \<and> length (BB_Lower closes) = length (df_index (s0 ! data))
     \<and> length (MACD closes) = length (df_index (s0 ! data))
     \<and> length (MACD_Signal closes) = length (df_index (s0 ! data))
     \<and> length (MACD_Histogram closes) = length (df_index (s0 ! data))
     \<and> (\<forall>t q. q < length t \<and> t ! q = s0 ! data \<longrightarrow>
          (\<exists>t'. calculate_technical_indicators t q = Inr (t', length t)
                \<and> t' ! length t = s' ! df \<and> t' ! q = t ! q))"
proof -
  let ?s = "s0 @ [enriched closes (s0 ! data)]"
  have len: "length closes = length (df_index (s0 ! data))"
    using assms(2,3) by (rule wf_getitem)
  have run: "calculate_technical_indicators s0 data = Inr (?s, length s0)"
    using assms(1,3) by (rule calculate_technical_indicators_result)
  have new: "?s ! length s0 = enriched closes (s0 ! data)" by simp
  have old: "?s ! data = s0 ! data" using assms(1) by (simp add: nth_append)
  have wf: "wf_dataframe (enriched closes (s0 ! data))"
    using assms(2) len by (rule wf_enriched)
  have other: "\<exists>t'. calculate_technical_indicators t q = Inr (t', length t)
                \<and> t' ! length t = ?s ! length s0 \<and> t' ! q = t ! q"
    if "q < length t \<and> t ! q = s0 ! data" for t q
  proof -
    have "calculate_technical_indicators t q = Inr (t @ [enriched closes (t ! q)], length t)"
      using that assms(3) by (intro calculate_technical_indicators_result) simp_all
    then show ?thesis using that by (simp add: nth_append)
  qed
  show ?thesis
    apply (rule exI [of _ ?s])
    apply (rule exI [of _ "length s0"])
    apply (simp only: new old)
    apply (intro conjI)
    using run wf len assms(3) other
    apply (simp_all add: getitem_enriched)
    done
qed

theorem indicators_pure_and_aligned_witness:
  "\<exists>s'. calculate_technical_indicators
           [\<lparr>df_index = [0, 1], df_columns = [(''Close'', [Fin 10, Fin 11])]\<rparr>] 0 = Inr (s', 1)
        \<and> s' ! 0 = \<lparr>df_index = [0, 1], df_columns = [(''Close'', [Fin 10, Fin 11])]\<rparr>
        \<and> df_index (s' ! 1) = [0, 1]
        \<and> getitem (s' ! 1) ''MA_5'' = Inr (MA_5 [Fin 10, Fin 11])"
proof -
  let ?df = "\<lparr>df_index = [0, 1], df_columns = [(''Close'', [Fin 10, Fin 11])]\<rparr>"
  have a: "0 < length [?df]" by simp
  have b: "wf_dataframe ([?df] ! 0)" by (simp add: wf_dataframe_def)
  have c: "getitem ([?df] ! 0) ''Close'' = Inr [Fin 10, Fin 11]" by (simp add: getitem_def)
  show ?thesis
    using indicators_pure_and_aligned [OF a b c] by auto
qed

end
